theory Spec2Isabelle
  imports Complex_Main
begin

section \<open>JavaScript numbers\<close>

text \<open>
  The program computes with JavaScript numbers. A number is modelled as an exact real
  or one of the three special values of the language; rounding, overflow of a finite
  result and the sign of zero are outside the model (zero is the positive zero).
  Every operation the program uses is given with its special cases, so that a
  computation that yields \<open>NaN\<close> or \<open>Infinity\<close> in the program yields it here.
\<close>

datatype jsnum = Fin real | PInf | NInf | NaN

fun js_sign :: "jsnum \<Rightarrow> real" where
  "js_sign (Fin x) = sgn x"
| "js_sign PInf = 1"
| "js_sign NInf = - 1"
| "js_sign NaN = 0"

definition inf_of_sign :: "real \<Rightarrow> jsnum" where
  "inf_of_sign s = (if 0 < s then PInf else if s < 0 then NInf else NaN)"

fun js_neg :: "jsnum \<Rightarrow> jsnum" where
  "js_neg (Fin x) = Fin (- x)"
| "js_neg PInf = NInf"
| "js_neg NInf = PInf"
| "js_neg NaN = NaN"

fun js_add :: "jsnum \<Rightarrow> jsnum \<Rightarrow> jsnum" where
  "js_add NaN y = NaN"
| "js_add x NaN = NaN"
| "js_add (Fin x) (Fin y) = Fin (x + y)"
| "js_add PInf NInf = NaN"
| "js_add NInf PInf = NaN"
| "js_add PInf y = PInf"
| "js_add x PInf = PInf"
| "js_add NInf y = NInf"
| "js_add x NInf = NInf"

definition js_sub :: "jsnum \<Rightarrow> jsnum \<Rightarrow> jsnum" where
  "js_sub x y = js_add x (js_neg y)"

fun js_mul :: "jsnum \<Rightarrow> jsnum \<Rightarrow> jsnum" where
  "js_mul NaN y = NaN"
| "js_mul x NaN = NaN"
| "js_mul (Fin x) (Fin y) = Fin (x * y)"
| "js_mul x y = inf_of_sign (js_sign x * js_sign y)"

fun js_div :: "jsnum \<Rightarrow> jsnum \<Rightarrow> jsnum" where
  "js_div NaN y = NaN"
| "js_div x NaN = NaN"
| "js_div (Fin x) (Fin y) = (if y = 0 then inf_of_sign (sgn x) else Fin (x / y))"
| "js_div (Fin x) y = Fin 0"
| "js_div x (Fin y) = inf_of_sign (js_sign x * (if y < 0 then - 1 else 1))"
| "js_div x y = NaN"

fun js_lt :: "jsnum \<Rightarrow> jsnum \<Rightarrow> bool" where
  "js_lt NaN y = False"
| "js_lt x NaN = False"
| "js_lt (Fin x) (Fin y) = (x < y)"
| "js_lt x NInf = False"
| "js_lt PInf y = False"
| "js_lt NInf y = True"
| "js_lt x PInf = True"

definition js_gt :: "jsnum \<Rightarrow> jsnum \<Rightarrow> bool" where
  "js_gt x y = js_lt y x"

definition js_le :: "jsnum \<Rightarrow> jsnum \<Rightarrow> bool" where
  "js_le x y = (x \<noteq> NaN \<and> y \<noteq> NaN \<and> (x = y \<or> js_lt x y))"

definition js_ge :: "jsnum \<Rightarrow> jsnum \<Rightarrow> bool" where
  "js_ge x y = js_le y x"

text \<open>
  \<open>Math.pow\<close> for the exponents the program passes (2.5 and 0.5: finite, positive,
  not an integer): a negative base gives \<open>NaN\<close>, both infinities give \<open>Infinity\<close>.
\<close>

fun Math_pow :: "jsnum \<Rightarrow> real \<Rightarrow> jsnum" where
  "Math_pow (Fin x) y = (if x < 0 then NaN else Fin (x powr y))"
| "Math_pow PInf y = PInf"
| "Math_pow NInf y = PInf"
| "Math_pow NaN y = NaN"

fun Math_sqrt :: "jsnum \<Rightarrow> jsnum" where
  "Math_sqrt (Fin x) = (if x < 0 then NaN else Fin (sqrt x))"
| "Math_sqrt PInf = PInf"
| "Math_sqrt NInf = NaN"
| "Math_sqrt NaN = NaN"

fun Math_log :: "jsnum \<Rightarrow> jsnum" where
  "Math_log (Fin x) = (if x < 0 then NaN else if x = 0 then NInf else Fin (ln x))"
| "Math_log PInf = PInf"
| "Math_log NInf = NaN"
| "Math_log NaN = NaN"

fun Math_cos :: "jsnum \<Rightarrow> jsnum" where
  "Math_cos (Fin x) = Fin (cos x)"
| "Math_cos x = NaN"

fun Math_sin :: "jsnum \<Rightarrow> jsnum" where
  "Math_sin (Fin x) = Fin (sin x)"
| "Math_sin x = NaN"

section \<open>The physics engine\<close>

text \<open>
  The description of the main-sequence stage prints the lifespan with two decimals
  between fixed words; the number is kept and the formatting left out.
\<close>

datatype description = Stable_Fusion jsnum | Text string

record star_stats =
  stage :: string
  color :: string
  scale :: jsnum
  description :: description

text \<open>The local constants of \<open>useStarPhysics\<close>.\<close>

definition star_lifespan :: "jsnum \<Rightarrow> jsnum" where
  "star_lifespan mass = js_add (js_div (Fin 10) (Math_pow mass 2.5)) (Fin 0.5)"

definition star_redGiantStart :: "jsnum \<Rightarrow> jsnum" where
  "star_redGiantStart mass = star_lifespan mass"

definition star_deathStart :: "jsnum \<Rightarrow> jsnum" where
  "star_deathStart mass = js_mul (star_lifespan mass) (Fin 1.2)"

definition star_baseSize :: "jsnum \<Rightarrow> jsnum" where
  "star_baseSize mass = js_mul (Math_log (js_add mass (Fin 1))) (Fin 1.5)"

definition useStarPhysics :: "jsnum \<Rightarrow> jsnum \<Rightarrow> star_stats" where
  "useStarPhysics mass age =
     (let redGiantStart = star_redGiantStart mass;
          deathStart = star_deathStart mass;
          baseSize = star_baseSize mass
      in if js_lt age redGiantStart then
           \<lparr>stage = ''Main Sequence'',
            color = (if js_gt mass (Fin 2) then ''#aaddff''
                     else if js_gt mass (Fin 0.8) then ''#ffaa00'' else ''#ff5500''),
            scale = baseSize,
            description = Stable_Fusion (star_lifespan mass)\<rparr>
         else if js_ge age redGiantStart \<and> js_lt age deathStart then
           (let progress = js_div (js_sub age redGiantStart) (js_sub deathStart redGiantStart)
            in \<lparr>stage = ''Red Giant'',
                color = ''#ff0000'',
                scale = js_mul baseSize (js_add (Fin 1) (js_mul progress (Fin 5))),
                description = Text (''Hydrogen Depleted.'' @ [CHR 0x0A] @ ''Core Collapsing.'')\<rparr>)
         else
           (let isSupernova = js_gt mass (Fin 8)
            in \<lparr>stage = (if isSupernova then ''SUPERNOVA'' else ''White Dwarf''),
                color = ''#ffffff'',
                scale = (if isSupernova then js_mul baseSize (Fin 0.5)
                         else js_mul baseSize (Fin 0.2)),
                description = (if isSupernova then Text ''Core collapse imminent.''
                               else Text (''Outer layers shed.'' @ [CHR 0x0A] @
                                          ''Core remnant remains.''))\<rparr>))"

record system_physics =
  currentMass :: jsnum
  lifespan :: jsnum
  redGiantEnd :: jsnum

text \<open>The local variable \<open>massMultiplier\<close> of \<open>getSystemPhysics\<close>.\<close>

definition massMultiplier :: "jsnum \<Rightarrow> jsnum \<Rightarrow> jsnum" where
  "massMultiplier starMass starAge =
     (let lifespan = js_add (js_div (Fin 10) (Math_pow starMass 2.5)) (Fin 0.5);
          redGiantEnd = js_mul lifespan (Fin 1.2)
      in if js_gt starAge lifespan \<and> js_lt starAge redGiantEnd then
           (let phaseProgress = js_div (js_sub starAge lifespan) (js_sub redGiantEnd lifespan)
            in js_sub (Fin 1.0) (js_mul phaseProgress (Fin 0.6)))
         else if js_ge starAge redGiantEnd then Fin 0.4
         else Fin 1.0)"

definition getSystemPhysics :: "jsnum \<Rightarrow> jsnum \<Rightarrow> system_physics" where
  "getSystemPhysics starMass starAge =
     (let lifespan = js_add (js_div (Fin 10) (Math_pow starMass 2.5)) (Fin 0.5);
          redGiantEnd = js_mul lifespan (Fin 1.2)
      in \<lparr>currentMass = js_mul starMass (massMultiplier starMass starAge),
          lifespan = lifespan,
          redGiantEnd = redGiantEnd\<rparr>)"

section \<open>The stand-alone hook\<close>

text \<open>
  \<open>hooks/useStarPhysics.js\<close> exports a second function of the same name, with its own
  lifespan; the application file does not import it.
\<close>

record hook_stats =
  h_color :: string
  h_scale :: jsnum
  h_stage :: string
  h_description :: string
  h_progress :: jsnum

definition hook_lifespan :: "jsnum \<Rightarrow> jsnum" where
  "hook_lifespan mass = js_div (Fin 10) (js_mul mass mass)"

definition useStarPhysics_hook :: "jsnum \<Rightarrow> jsnum \<Rightarrow> hook_stats" where
  "useStarPhysics_hook mass age =
     (let progress = js_div age (hook_lifespan mass)
      in if js_lt progress (Fin 0.1) then
           \<lparr>h_color = ''#ffffff'', h_scale = js_mul mass (Fin 0.5), h_stage = ''Proto-Star'',
            h_description = ''A gas cloud collapsing under gravity.'', h_progress = progress\<rparr>
         else if js_lt progress (Fin 0.9) then
           (if js_lt mass (Fin 0.8) then
              \<lparr>h_color = ''#ff5555'', h_scale = mass, h_stage = ''Red Dwarf'',
               h_description = ''Burning slowly. Will live essentially forever.'',
               h_progress = progress\<rparr>
            else if js_gt mass (Fin 8) then
              \<lparr>h_color = ''#5588ff'', h_scale = js_mul mass (Fin 1.5),
               h_stage = ''Blue Supergiant'',
               h_description = ''Burning fuel rapidly. Violent death imminent.'',
               h_progress = progress\<rparr>
            else
              \<lparr>h_color = ''#ffaa00'', h_scale = mass, h_stage = ''Main Sequence'',
               h_description = ''Stable life. Capable of supporting liquid water.'',
               h_progress = progress\<rparr>)
         else
           (if js_le mass (Fin 8) then
              \<lparr>h_color = ''#ff0000'', h_scale = js_mul mass (Fin 4), h_stage = ''Red Giant'',
               h_description = ''Expanding. Consuming inner planets.'', h_progress = progress\<rparr>
            else
              \<lparr>h_color = ''#8800ff'', h_scale = js_mul mass (Fin 0.8), h_stage = ''Wolf-Rayet'',
               h_description = ''Core collapse imminent. Supernova incoming.'',
               h_progress = progress\<rparr>))"

section \<open>The particle belts\<close>

text \<open>
  A belt particle as the belts generate it (the spin of a particle changes only its
  orientation and is left out), and the instance a frame writes for it: its position
  and its scale.
\<close>

record particle =
  p_angle :: jsnum
  p_dist :: jsnum
  p_speed :: jsnum
  p_yOffset :: jsnum
  p_size :: jsnum

record inst =
  i_x :: jsnum
  i_y :: jsnum
  i_z :: jsnum
  i_scale :: jsnum

text \<open>The body of the loop over the particles in the frame callback of each belt.\<close>

definition AsteroidBelt_particle ::
  "jsnum \<Rightarrow> jsnum \<Rightarrow> bool \<Rightarrow> jsnum \<Rightarrow> jsnum \<Rightarrow> particle \<Rightarrow> particle \<times> inst" where
  "AsteroidBelt_particle mass age exploded starScale delta data =
     (let physics = getSystemPhysics mass age;
          agingExpansion = js_div mass (currentMass physics);
          initialSystemScale = Math_pow mass 0.5;
          expansionFactor = js_mul agingExpansion initialSystemScale;
          currentDist = js_mul (p_dist data) expansionFactor;
          currentSpeed =
            js_div (js_mul (p_speed data) (Math_sqrt (currentMass physics))) initialSystemScale;
          angle1 = js_add (p_angle data) (js_mul (js_mul currentSpeed delta) (Fin 0.2));
          x = js_mul (Math_cos angle1) currentDist;
          z = js_mul (Math_sin angle1) currentDist;
          s0 = p_size data;
          s1 = (if js_gt age (lifespan physics) \<and> js_lt age (redGiantEnd physics) \<and>
                   js_gt starScale (js_mul currentDist (Fin 0.9)) then Fin 0 else s0);
          s2 = (if exploded then Fin 0 else s1)
      in (data\<lparr>p_angle := angle1\<rparr>, \<lparr>i_x = x, i_y = p_yOffset data, i_z = z, i_scale = s2\<rparr>))"

definition AsteroidBelt_useFrame ::
  "jsnum \<Rightarrow> jsnum \<Rightarrow> bool \<Rightarrow> jsnum \<Rightarrow> jsnum \<Rightarrow> particle list \<Rightarrow> (particle \<times> inst) list" where
  "AsteroidBelt_useFrame mass age exploded starScale delta asteroids =
     map (AsteroidBelt_particle mass age exploded starScale delta) asteroids"

definition KuiperBelt_particle ::
  "jsnum \<Rightarrow> jsnum \<Rightarrow> bool \<Rightarrow> jsnum \<Rightarrow> jsnum \<Rightarrow> particle \<Rightarrow> particle \<times> inst" where
  "KuiperBelt_particle mass age exploded starScale delta data =
     (let physics = getSystemPhysics mass age;
          agingExpansion = js_div mass (currentMass physics);
          initialSystemScale = Math_pow mass 0.5;
          expansionFactor = js_mul agingExpansion initialSystemScale;
          currentDist = js_mul (p_dist data) expansionFactor;
          currentSpeed =
            js_div (js_mul (p_speed data) (Math_sqrt (currentMass physics))) initialSystemScale;
          angle1 = js_add (p_angle data) (js_mul (js_mul currentSpeed delta) (Fin 0.1));
          x = js_mul (Math_cos angle1) currentDist;
          z = js_mul (Math_sin angle1) currentDist;
          s0 = p_size data;
          s1 = (if exploded then Fin 0 else s0)
      in (data\<lparr>p_angle := angle1\<rparr>, \<lparr>i_x = x, i_y = p_yOffset data, i_z = z, i_scale = s1\<rparr>))"

definition KuiperBelt_useFrame ::
  "jsnum \<Rightarrow> jsnum \<Rightarrow> bool \<Rightarrow> jsnum \<Rightarrow> jsnum \<Rightarrow> particle list \<Rightarrow> (particle \<times> inst) list" where
  "KuiperBelt_useFrame mass age exploded starScale delta asteroids =
     map (KuiperBelt_particle mass age exploded starScale delta) asteroids"

section \<open>The planets\<close>

record planet_data =
  pd_name :: string
  pd_baseDist :: jsnum
  pd_size :: jsnum
  pd_speed :: jsnum
  pd_hasMoon :: bool
  pd_hasRings :: bool
  pd_isEccentric :: bool
  pd_inclination :: jsnum
  pd_eccentricity :: jsnum

text \<open>
  The catalogue of \<open>PlanetarySystem\<close>. A flag an entry does not have is false, and a
  number it does not have is \<open>NaN\<close>, which is what arithmetic makes of a missing
  property.
\<close>

definition planet :: "string \<Rightarrow> real \<Rightarrow> real \<Rightarrow> real \<Rightarrow> planet_data" where
  "planet n d sz sp =
     \<lparr>pd_name = n, pd_baseDist = Fin d, pd_size = Fin sz, pd_speed = Fin sp,
      pd_hasMoon = False, pd_hasRings = False, pd_isEccentric = False,
      pd_inclination = NaN, pd_eccentricity = NaN\<rparr>"

definition planets :: "planet_data list" where
  "planets =
     [planet ''MERCURY'' 3.5 0.15 2.0,
      planet ''VENUS'' 5.0 0.25 1.5,
      (planet ''EARTH'' 7.0 0.3 1.0)\<lparr>pd_hasMoon := True\<rparr>,
      planet ''MARS'' 9.0 0.2 0.8,
      planet ''JUPITER'' 14.0 0.8 0.5,
      (planet ''SATURN'' 19.0 0.7 0.4)\<lparr>pd_hasRings := True\<rparr>,
      planet ''URANUS'' 24.0 0.5 0.3,
      planet ''NEPTUNE'' 28.0 0.5 0.2,
      (planet ''PLUTO'' 35.0 0.25 0.15)
        \<lparr>pd_isEccentric := True, pd_inclination := Fin 0.3, pd_eccentricity := Fin 0.2\<rparr>]"

text \<open>The state one \<open>SinglePlanet\<close> keeps between frames.\<close>

record planet_state =
  angle :: jsnum
  moonAngle :: jsnum
  isDead :: bool
  hovered :: bool

definition new_planet :: "jsnum \<Rightarrow> planet_state" where
  "new_planet a = \<lparr>angle = a, moonAngle = Fin 0, isDead = False, hovered = False\<rparr>"

text \<open>The position logic of the frame callback: the target position of the planet.\<close>

definition planet_position :: "planet_data \<Rightarrow> jsnum \<Rightarrow> jsnum \<Rightarrow> jsnum \<times> jsnum \<times> jsnum" where
  "planet_position data currentBaseDist a =
     (if pd_isEccentric data then
        (let e = pd_eccentricity data;
             r = js_div (js_mul currentBaseDist (js_sub (Fin 1) (js_mul e e)))
                        (js_add (Fin 1) (js_mul e (Math_cos a)));
             x0 = js_mul r (Math_cos a);
             z0 = js_mul r (Math_sin a);
             y = js_mul z0 (Math_sin (pd_inclination data));
             z = js_mul z0 (Math_cos (pd_inclination data))
         in (x0, y, z))
      else (js_mul (Math_cos a) currentBaseDist, Fin 0, js_mul (Math_sin a) currentBaseDist))"

definition distFromCenter :: "jsnum \<times> jsnum \<times> jsnum \<Rightarrow> jsnum" where
  "distFromCenter pos = (case pos of (x, y, z) \<Rightarrow> Math_sqrt (js_add (js_mul x x) (js_mul z z)))"

definition currentBaseDist :: "planet_data \<Rightarrow> jsnum \<Rightarrow> jsnum \<Rightarrow> jsnum" where
  "currentBaseDist data starMass starAge =
     (let physics = getSystemPhysics starMass starAge;
          agingExpansion = js_div starMass (currentMass physics);
          initialSystemScale = Math_pow starMass 0.5
      in js_mul (js_mul (pd_baseDist data) initialSystemScale) agingExpansion)"

definition currentSpeed :: "planet_data \<Rightarrow> jsnum \<Rightarrow> jsnum \<Rightarrow> jsnum" where
  "currentSpeed data starMass starAge =
     (let physics = getSystemPhysics starMass starAge;
          initialSystemScale = Math_pow starMass 0.5
      in js_div (js_mul (pd_speed data) (Math_sqrt (currentMass physics))) initialSystemScale)"

text \<open>The death logic of the frame callback: the condition under which it sets \<open>isDead\<close>.\<close>

definition engulfed :: "planet_data \<Rightarrow> jsnum \<Rightarrow> jsnum \<Rightarrow> jsnum \<Rightarrow> jsnum \<Rightarrow> bool" where
  "engulfed data starScale starMass starAge a =
     (let physics = getSystemPhysics starMass starAge;
          d = distFromCenter (planet_position data (currentBaseDist data starMass starAge) a)
      in js_gt starAge (lifespan physics) \<and> js_lt starAge (redGiantEnd physics) \<and>
         js_gt starScale (js_mul d (Fin 0.95)))"

text \<open>
  The frame callback of \<open>SinglePlanet\<close>: the next state of the planet, and whether the
  callback cleared the focus and the selection. State updates take effect before the next
  frame; the smoothing of the drawn position (a \<open>lerp\<close> of the mesh) is left out.
\<close>

definition SinglePlanet_useFrame ::
  "planet_data \<Rightarrow> jsnum \<Rightarrow> bool \<Rightarrow> jsnum \<Rightarrow> jsnum \<Rightarrow> jsnum \<Rightarrow> planet_state \<Rightarrow> planet_state \<times> bool"
  where
  "SinglePlanet_useFrame data starScale exploded starMass starAge delta st =
     (if exploded \<or> isDead st then (st, False)
      else
        (let dies = engulfed data starScale starMass starAge (angle st)
         in (st\<lparr>angle := js_add (angle st)
                             (js_mul (js_mul delta (currentSpeed data starMass starAge)) (Fin 0.2)),
                moonAngle := (if pd_hasMoon data then js_add (moonAngle st) (js_mul delta (Fin 3))
                              else moonAngle st),
                isDead := (if dies then True else isDead st)\<rparr>,
             dies)))"

text \<open>
  What \<open>SinglePlanet\<close> draws: nothing for a dead planet, otherwise a sphere of the
  catalogue's radius in a group of scale one, with its colour and its decorations. The
  orbit ring is mounted outside an explosion, and the frame callback hides the ring of a
  planet on an eccentric orbit.
\<close>

record planet_view =
  v_radius :: jsnum
  v_color :: string
  v_orbitRing :: bool
  v_moon :: bool
  v_rings :: bool
  v_label :: bool

definition SinglePlanet_render :: "planet_data \<Rightarrow> bool \<Rightarrow> planet_state \<Rightarrow> planet_view option" where
  "SinglePlanet_render data exploded st =
     (if isDead st then None
      else Some \<lparr>v_radius = pd_size data,
                 v_color = (if exploded then ''#111'' else if hovered st then ''#aaf'' else ''white''),
                 v_orbitRing = (\<not> exploded \<and> \<not> pd_isEccentric data),
                 v_moon = (pd_hasMoon data \<and> \<not> exploded),
                 v_rings = (pd_hasRings data \<and> \<not> exploded),
                 v_label = (\<not> exploded \<and> hovered st)\<rparr>)"

section \<open>The application\<close>

text \<open>
  The state of \<open>App\<close>, the states of the planets mounted under the reset key, and the
  environment of the callbacks: a clock in milliseconds and the deadlines of the pending
  \<open>setTimeout\<close> calls of \<open>triggerDeath\<close>. The focus and the selection hold the index of a
  planet in the catalogue.
\<close>

record system =
  s_mass :: jsnum
  s_age :: jsnum
  s_exploded :: bool
  s_isPlaying :: bool
  s_focusTarget :: "nat option"
  s_selectedPlanet :: "nat option"
  s_resetKey :: nat
  s_bodies :: "planet_state list"
  s_timers :: "nat list"
  s_clock :: nat

text \<open>Mounting draws a random start angle for each planet; \<open>rnd\<close> supplies the draws.\<close>

definition mount_planets :: "(nat \<Rightarrow> jsnum) \<Rightarrow> planet_state list" where
  "mount_planets rnd = map (\<lambda>i. new_planet (rnd i)) [0..<length planets]"

definition init :: "(nat \<Rightarrow> jsnum) \<Rightarrow> system" where
  "init rnd =
     \<lparr>s_mass = Fin 1, s_age = Fin 0, s_exploded = False, s_isPlaying = False,
      s_focusTarget = None, s_selectedPlanet = None, s_resetKey = 0,
      s_bodies = mount_planets rnd, s_timers = [], s_clock = 0\<rparr>"

text \<open>
  The updater the 50 ms interval passes to \<open>setAge\<close>: the next age, and whether it stops
  the playback.
\<close>

definition age_updater :: "jsnum \<Rightarrow> jsnum \<times> bool" where
  "age_updater prev = (if js_ge prev (Fin 14.9) then (Fin 15, True) else (js_add prev (Fin 0.05), False))"

text \<open>
  One firing of the interval. The effect installs the interval only while the playing
  flag is set and the age is below 15, and removes it when either changes.
\<close>

definition interval_tick :: "system \<Rightarrow> system" where
  "interval_tick s =
     (if s_isPlaying s \<and> js_lt (s_age s) (Fin 15) then
        (case age_updater (s_age s) of
           (a, stop) \<Rightarrow> s\<lparr>s_age := a, s_isPlaying := (if stop then False else s_isPlaying s)\<rparr>)
      else s)"

definition triggerDeath :: "system \<Rightarrow> system" where
  "triggerDeath s = s\<lparr>s_exploded := True, s_timers := s_timers s @ [s_clock s + 2000]\<rparr>"

text \<open>
  Real time passes: every pending timeout whose deadline is reached runs its callback,
  which clears the explosion flag, and is gone.
\<close>

definition elapse :: "nat \<Rightarrow> system \<Rightarrow> system" where
  "elapse dt s =
     (let t = s_clock s + dt;
          due = filter (\<lambda>d. d \<le> t) (s_timers s)
      in s\<lparr>s_clock := t,
           s_timers := filter (\<lambda>d. \<not> d \<le> t) (s_timers s),
           s_exploded := (if due = [] then s_exploded s else False)\<rparr>)"

definition toggleTime :: "system \<Rightarrow> system" where
  "toggleTime s = s\<lparr>s_isPlaying := \<not> s_isPlaying s\<rparr>"

text \<open>
  \<open>reset\<close> changes the key of the group of bodies, which mounts every planet and both
  belts anew. It leaves the pending timeouts alone.
\<close>

definition reset :: "(nat \<Rightarrow> jsnum) \<Rightarrow> system \<Rightarrow> system" where
  "reset rnd s =
     s\<lparr>s_isPlaying := False, s_age := Fin 0, s_exploded := False,
       s_focusTarget := None, s_selectedPlanet := None,
       s_resetKey := s_resetKey s + 1, s_bodies := mount_planets rnd\<rparr>"

text \<open>The mass slider is disabled while the playback runs.\<close>

definition setMass :: "jsnum \<Rightarrow> system \<Rightarrow> system" where
  "setMass v s = (if s_isPlaying s then s else s\<lparr>s_mass := v\<rparr>)"

definition setAge :: "jsnum \<Rightarrow> system \<Rightarrow> system" where
  "setAge v s = s\<lparr>s_age := v\<rparr>"

text \<open>One rendered frame: the frame callback of every planet, with the props \<open>App\<close> passes.\<close>

definition frame :: "jsnum \<Rightarrow> system \<Rightarrow> system" where
  "frame delta s =
     (let starStats = useStarPhysics (s_mass s) (s_age s);
          rs = map2 (\<lambda>data st. SinglePlanet_useFrame data (scale starStats) (s_exploded s)
                                  (s_mass s) (s_age s) delta st)
                    planets (s_bodies s);
          cleared = list_ex snd rs
      in s\<lparr>s_bodies := map fst rs,
           s_focusTarget := (if cleared then None else s_focusTarget s),
           s_selectedPlanet := (if cleared then None else s_selectedPlanet s)\<rparr>)"

text \<open>A click or a pointer move reaches a planet only while the planet is drawn.\<close>

definition clickPlanet :: "nat \<Rightarrow> system \<Rightarrow> system" where
  "clickPlanet i s =
     (if i < length (s_bodies s) \<and> \<not> isDead (s_bodies s ! i)
      then s\<lparr>s_focusTarget := Some i, s_selectedPlanet := Some i\<rparr> else s)"

definition clickAway :: "system \<Rightarrow> system" where
  "clickAway s = s\<lparr>s_focusTarget := None, s_selectedPlanet := None\<rparr>"

definition hover :: "nat \<Rightarrow> bool \<Rightarrow> system \<Rightarrow> system" where
  "hover i b s =
     (if i < length (s_bodies s) \<and> \<not> isDead (s_bodies s ! i)
      then s\<lparr>s_bodies := (s_bodies s)[i := (s_bodies s ! i)\<lparr>hovered := b\<rparr>]\<rparr> else s)"

datatype event =
    Frame jsnum
  | IntervalTick
  | SetMass jsnum
  | SetAge jsnum
  | ToggleTime
  | TriggerDeath
  | Elapse nat
  | Reset "nat \<Rightarrow> jsnum"
  | ClickPlanet nat
  | ClickAway
  | Hover nat bool

fun step :: "event \<Rightarrow> system \<Rightarrow> system" where
  "step (Frame delta) s = frame delta s"
| "step IntervalTick s = interval_tick s"
| "step (SetMass v) s = setMass v s"
| "step (SetAge v) s = setAge v s"
| "step ToggleTime s = toggleTime s"
| "step TriggerDeath s = triggerDeath s"
| "step (Elapse dt) s = elapse dt s"
| "step (Reset rnd) s = reset rnd s"
| "step (ClickPlanet i) s = clickPlanet i s"
| "step ClickAway s = clickAway s"
| "step (Hover i b) s = hover i b s"

fun run :: "event list \<Rightarrow> system \<Rightarrow> system" where
  "run [] s = s"
| "run (e # es) s = run es (step e s)"


section \<open>The formulas of the specification\<close>

text \<open>
  The derived constants as the specification writes them, over the reals. They are the
  reference the program's computations are compared with.
\<close>

definition spec_lifespan :: "real \<Rightarrow> real" where
  "spec_lifespan m = 10 / m powr 2.5 + 0.5"

definition spec_redGiantEnd :: "real \<Rightarrow> real" where
  "spec_redGiantEnd m = 1.2 * spec_lifespan m"

definition spec_baseSize :: "real \<Rightarrow> real" where
  "spec_baseSize m = ln (m + 1) * 1.5"

definition spec_phaseProgress :: "real \<Rightarrow> real \<Rightarrow> real" where
  "spec_phaseProgress m a = (a - spec_lifespan m) / (spec_redGiantEnd m - spec_lifespan m)"

text \<open>
  The mass multiplier in the specification's words: 1 up to the lifespan, falling
  linearly to 0.4 at the end of the red-giant phase, and 0.4 from there on.
\<close>

definition spec_massMultiplier :: "real \<Rightarrow> real \<Rightarrow> real" where
  "spec_massMultiplier m a =
     (if a \<le> spec_lifespan m then 1
      else if a < spec_redGiantEnd m then 1 - 0.6 * spec_phaseProgress m a
      else 0.4)"

text \<open>
  The clamp the specification expects of the presentation layer: the mass to the range
  0.5 to 15, the age to the range 0 to 15.
\<close>

definition spec_clamp :: "real \<Rightarrow> real \<Rightarrow> real \<Rightarrow> real" where
  "spec_clamp lo hi x = max lo (min hi x)"

section \<open>The engulfment condition of the specification\<close>







section \<open>Finite inputs: the program computes the formulas\<close>

text \<open>
  For a positive finite mass every intermediate value of the physics engine is finite and
  equals the real-number formula of the specification.
\<close>

lemma spec_lifespan_gt: "0 < m \<Longrightarrow> 1/2 < spec_lifespan m"
  by (simp add: spec_lifespan_def)

lemma spec_redGiantEnd_gt: "0 < m \<Longrightarrow> spec_lifespan m < spec_redGiantEnd m"
  using spec_lifespan_gt [of m] by (simp add: spec_redGiantEnd_def)

lemma lifespan_expr_Fin:
  "0 < m \<Longrightarrow> js_add (js_div (Fin 10) (Math_pow (Fin m) 2.5)) (Fin 0.5) = Fin (spec_lifespan m)"
  by (simp add: spec_lifespan_def)

lemma redGiantEnd_expr_Fin:
  "js_mul (Fin (spec_lifespan m)) (Fin 1.2) = Fin (spec_redGiantEnd m)"
  by (simp add: spec_redGiantEnd_def)

lemma massMultiplier_Fin:
  assumes "0 < m"
  shows "massMultiplier (Fin m) (Fin a) = Fin (spec_massMultiplier m a)"
proof -
  have lt: "spec_lifespan m < spec_redGiantEnd m"
    using spec_redGiantEnd_gt [OF assms] .
  then have ne: "spec_redGiantEnd m - spec_lifespan m \<noteq> 0"
    by simp
  show ?thesis
    unfolding massMultiplier_def Let_def lifespan_expr_Fin [OF assms] redGiantEnd_expr_Fin
    using ne lt
    by (simp add: js_gt_def js_ge_def js_le_def js_sub_def spec_phaseProgress_def
        spec_massMultiplier_def mult.commute)
qed

lemma phaseProgress_range:
  assumes "0 < m" "spec_lifespan m < a" "a < spec_redGiantEnd m"
  shows "0 < spec_phaseProgress m a \<and> spec_phaseProgress m a < 1"
  using assms by (simp add: spec_phaseProgress_def)

lemma spec_massMultiplier_bounds:
  assumes "0 < m"
  shows "0.4 \<le> spec_massMultiplier m a \<and> spec_massMultiplier m a \<le> 1"
proof (cases "spec_lifespan m < a \<and> a < spec_redGiantEnd m")
  case True
  then have "0 < spec_phaseProgress m a \<and> spec_phaseProgress m a < 1"
    using phaseProgress_range [OF assms] by simp
  then show ?thesis
    using True by (simp add: spec_massMultiplier_def)
next
  case False
  then show ?thesis
    by (auto simp add: spec_massMultiplier_def)
qed

lemma massMultiplier_bounds:
  assumes "0 < m"
  shows "\<exists>k. massMultiplier (Fin m) (Fin a) = Fin k \<and> 0.4 \<le> k \<and> k \<le> 1"
  using spec_massMultiplier_bounds [OF assms, of a] massMultiplier_Fin [OF assms, of a]
  by simp

lemma massMultiplier_special:
  assumes "0 < m" "age = PInf \<or> age = NInf \<or> age = NaN"
  shows "massMultiplier (Fin m) age = (if age = PInf then Fin 0.4 else Fin 1)"
  unfolding massMultiplier_def Let_def lifespan_expr_Fin [OF assms(1)] redGiantEnd_expr_Fin
  using assms(2)
  by (auto simp add: js_gt_def js_ge_def js_le_def Let_def)

lemma massMultiplier_bounds_any:
  assumes "0 < m"
  shows "\<exists>k. massMultiplier (Fin m) age = Fin k \<and> 0.4 \<le> k \<and> k \<le> 1"
proof (cases age)
  case (Fin a)
  then show ?thesis using massMultiplier_bounds [OF assms] by simp
next
  case PInf
  then have "massMultiplier (Fin m) age = Fin 0.4"
    by (simp add: massMultiplier_special [OF assms])
  then show ?thesis by (intro exI [of _ "0.4"]) simp
next
  case NInf
  then show ?thesis by (simp add: massMultiplier_special [OF assms])
next
  case NaN
  then show ?thesis by (simp add: massMultiplier_special [OF assms])
qed

lemma spec_massMultiplier_continuous:
  assumes "0 < m"
  shows "continuous_on UNIV (spec_massMultiplier m)"
proof -
  let ?L = "spec_lifespan m" and ?R = "spec_redGiantEnd m"
  have lt: "?L < ?R" using spec_redGiantEnd_gt [OF assms] .
  have eq: "spec_massMultiplier m = (\<lambda>a. max 0.4 (min 1 (1 - 0.6 * ((a - ?L) / (?R - ?L)))))"
  proof
    fix a
    show "spec_massMultiplier m a = max 0.4 (min 1 (1 - 0.6 * ((a - ?L) / (?R - ?L))))"
      using lt
      by (auto simp add: spec_massMultiplier_def spec_phaseProgress_def max_def min_def
          field_simps)
  qed
  show ?thesis
    unfolding eq using lt by (intro continuous_intros) auto
qed

lemma star_lifespan_Fin: "0 < m \<Longrightarrow> star_lifespan (Fin m) = Fin (spec_lifespan m)"
  by (simp add: star_lifespan_def spec_lifespan_def)

lemma star_deathStart_Fin: "0 < m \<Longrightarrow> star_deathStart (Fin m) = Fin (spec_redGiantEnd m)"
  by (simp add: star_deathStart_def star_lifespan_Fin spec_redGiantEnd_def)

lemma star_baseSize_Fin: "0 < m \<Longrightarrow> star_baseSize (Fin m) = Fin (spec_baseSize m)"
  by (simp add: star_baseSize_def spec_baseSize_def)

lemma useStarPhysics_main:
  assumes "0 < m" "a < spec_lifespan m"
  shows "useStarPhysics (Fin m) (Fin a) =
     \<lparr>stage = ''Main Sequence'',
      color = (if 2 < m then ''#aaddff'' else if 0.8 < m then ''#ffaa00'' else ''#ff5500''),
      scale = Fin (spec_baseSize m),
      description = Stable_Fusion (Fin (spec_lifespan m))\<rparr>"
  using assms
  by (simp add: useStarPhysics_def star_redGiantStart_def star_lifespan_Fin star_baseSize_Fin js_gt_def)

lemma useStarPhysics_giant:
  assumes "0 < m" "spec_lifespan m \<le> a" "a < spec_redGiantEnd m"
  shows "useStarPhysics (Fin m) (Fin a) =
     \<lparr>stage = ''Red Giant'', color = ''#ff0000'',
      scale = Fin (spec_baseSize m * (1 + 5 * spec_phaseProgress m a)),
      description = Text (''Hydrogen Depleted.'' @ [CHR 0x0A] @ ''Core Collapsing.'')\<rparr>"
proof -
  have ne: "spec_redGiantEnd m - spec_lifespan m \<noteq> 0"
    using spec_redGiantEnd_gt [OF assms(1)] by simp
  show ?thesis
    using assms ne
    by (simp add: useStarPhysics_def star_redGiantStart_def star_lifespan_Fin
        star_deathStart_Fin star_baseSize_Fin js_ge_def js_le_def js_sub_def
        spec_phaseProgress_def Let_def mult.commute)
qed

lemma useStarPhysics_remnant:
  assumes "0 < m" "spec_redGiantEnd m \<le> a"
  shows "useStarPhysics (Fin m) (Fin a) =
     \<lparr>stage = (if 8 < m then ''SUPERNOVA'' else ''White Dwarf''), color = ''#ffffff'',
      scale = Fin (if 8 < m then spec_baseSize m * 0.5 else spec_baseSize m * 0.2),
      description = (if 8 < m then Text ''Core collapse imminent.''
                     else Text (''Outer layers shed.'' @ [CHR 0x0A] @ ''Core remnant remains.''))\<rparr>"
proof -
  have "spec_lifespan m < spec_redGiantEnd m"
    using spec_redGiantEnd_gt [OF assms(1)] .
  then show ?thesis
    using assms
    by (simp add: useStarPhysics_def star_redGiantStart_def star_lifespan_Fin
        star_deathStart_Fin star_baseSize_Fin js_ge_def js_le_def js_gt_def Let_def)
qed

lemma getSystemPhysics_Fin:
  assumes "0 < m"
  shows "lifespan (getSystemPhysics (Fin m) age) = Fin (spec_lifespan m) \<and>
         redGiantEnd (getSystemPhysics (Fin m) age) = Fin (spec_redGiantEnd m) \<and>
         currentMass (getSystemPhysics (Fin m) age) = js_mul (Fin m) (massMultiplier (Fin m) age)"
  unfolding getSystemPhysics_def Let_def lifespan_expr_Fin [OF assms] redGiantEnd_expr_Fin
  by simp

lemma Math_pow_pos: "0 < m \<Longrightarrow> Math_pow (Fin m) (1 / 2) = Fin (sqrt m)"
  by (simp add: powr_half_sqrt)

lemma currentMass_bounds:
  assumes "0 < m"
  shows "\<exists>c. currentMass (getSystemPhysics (Fin m) age) = Fin c \<and> 0.4 * m \<le> c \<and> c \<le> m"
proof -
  obtain k where k: "massMultiplier (Fin m) age = Fin k" "0.4 \<le> k" "k \<le> 1"
    using massMultiplier_bounds_any [OF assms, of age] by blast
  have "currentMass (getSystemPhysics (Fin m) age) = Fin (m * k)"
    using getSystemPhysics_Fin [OF assms, of age] k(1) by simp
  moreover have "0.4 * m \<le> m * k"
    using assms k(2) by simp
  moreover have "m * k \<le> m"
    using assms k(3) by simp
  ultimately show ?thesis by blast
qed

lemma spec_lifespan_one: "spec_lifespan 1 = 21 / 2"
  by (simp add: spec_lifespan_def)

lemma spec_redGiantEnd_one: "spec_redGiantEnd 1 = 63 / 5"
  by (simp add: spec_redGiantEnd_def spec_lifespan_one)

lemma spec_redGiantEnd_le: "1 \<le> m \<Longrightarrow> spec_redGiantEnd m \<le> 63 / 5"
proof -
  assume m: "1 \<le> m"
  then have "1 \<le> m powr 2.5"
    by (simp add: ge_one_powr_ge_zero)
  then have "10 / m powr 2.5 \<le> 10 / 1"
    using m by (intro divide_left_mono) simp_all
  then have "10 / m powr 2.5 \<le> 10"
    by simp
  then show ?thesis
    by (simp add: spec_redGiantEnd_def spec_lifespan_def)
qed

section \<open>The stage of the star\<close>

text \<open>
  Claim C1. For every mass above zero and every age the star-state computation selects
  one of three stages, and a boundary belongs to the later stage. Below the lifespan the
  stage is Main Sequence, with the base size \<open>ln (mass + 1) * 1.5\<close> as scale. From the
  lifespan up to, but excluding, the end of the red-giant phase the stage is Red Giant,
  with scale \<open>baseSize * (1 + 5 * phaseProgress)\<close>. From the end of the red-giant phase on
  the stage is the supernova stage for a mass above 8 (the program's label for it is
  \<open>SUPERNOVA\<close>, in capitals) and White Dwarf otherwise, with scale \<open>baseSize * 0.5\<close> and
  \<open>baseSize * 0.2\<close>. The three age ranges are disjoint and cover every age, since the
  lifespan is below the end of the red-giant phase. At an age equal to the lifespan the
  stage is Red Giant.
\<close>

theorem stage_selection:
  assumes "0 < m"
  shows "spec_lifespan m < spec_redGiantEnd m \<and>
    (a < spec_lifespan m \<longrightarrow>
       stage (useStarPhysics (Fin m) (Fin a)) = ''Main Sequence'' \<and>
       scale (useStarPhysics (Fin m) (Fin a)) = Fin (spec_baseSize m)) \<and>
    (spec_lifespan m \<le> a \<and> a < spec_redGiantEnd m \<longrightarrow>
       stage (useStarPhysics (Fin m) (Fin a)) = ''Red Giant'' \<and>
       scale (useStarPhysics (Fin m) (Fin a)) =
         Fin (spec_baseSize m * (1 + 5 * spec_phaseProgress m a))) \<and>
    (spec_redGiantEnd m \<le> a \<longrightarrow>
       stage (useStarPhysics (Fin m) (Fin a)) = (if 8 < m then ''SUPERNOVA'' else ''White Dwarf'') \<and>
       scale (useStarPhysics (Fin m) (Fin a)) =
         Fin (if 8 < m then spec_baseSize m * 0.5 else spec_baseSize m * 0.2)) \<and>
    stage (useStarPhysics (Fin m) (Fin (spec_lifespan m))) = ''Red Giant''"
proof -
  have lt: "spec_lifespan m < spec_redGiantEnd m"
    using spec_redGiantEnd_gt [OF assms] .
  have main: "a < spec_lifespan m \<longrightarrow>
       stage (useStarPhysics (Fin m) (Fin a)) = ''Main Sequence'' \<and>
       scale (useStarPhysics (Fin m) (Fin a)) = Fin (spec_baseSize m)"
    by (simp add: useStarPhysics_main [OF assms])
  have giant: "spec_lifespan m \<le> a \<and> a < spec_redGiantEnd m \<longrightarrow>
       stage (useStarPhysics (Fin m) (Fin a)) = ''Red Giant'' \<and>
       scale (useStarPhysics (Fin m) (Fin a)) =
         Fin (spec_baseSize m * (1 + 5 * spec_phaseProgress m a))"
    by (simp add: useStarPhysics_giant [OF assms])
  have remnant: "spec_redGiantEnd m \<le> a \<longrightarrow>
       stage (useStarPhysics (Fin m) (Fin a)) = (if 8 < m then ''SUPERNOVA'' else ''White Dwarf'') \<and>
       scale (useStarPhysics (Fin m) (Fin a)) =
         Fin (if 8 < m then spec_baseSize m * 0.5 else spec_baseSize m * 0.2)"
    by (simp add: useStarPhysics_remnant [OF assms])
  have boundary: "stage (useStarPhysics (Fin m) (Fin (spec_lifespan m))) = ''Red Giant''"
    using lt by (simp add: useStarPhysics_giant [OF assms])
  show ?thesis
    using lt main giant remnant boundary by blast
qed

text \<open>
  The theorem at mass 1 (lifespan 10.5, end of the red-giant phase 12.6) in each of the
  three ranges and on both boundaries, and at mass 9 after the end of the red-giant phase.
\<close>

theorem stage_selection_witness:
  "(0::real) < 1 \<and> (0::real) < 9 \<and>
   stage (useStarPhysics (Fin 1) (Fin 0)) = ''Main Sequence'' \<and>
   stage (useStarPhysics (Fin 1) (Fin 10.5)) = ''Red Giant'' \<and>
   stage (useStarPhysics (Fin 1) (Fin 12.6)) = ''White Dwarf'' \<and>
   stage (useStarPhysics (Fin 9) (Fin 15)) = ''SUPERNOVA''"
proof -
  have nine: "spec_redGiantEnd 9 \<le> 15"
    using spec_redGiantEnd_le [of 9] by simp
  show ?thesis
    using stage_selection [of 1 0] stage_selection [of 1 "10.5"] stage_selection [of 1 "12.6"]
      stage_selection [of 9 15] nine
    by (simp add: spec_lifespan_one spec_redGiantEnd_one)
qed

section \<open>The lifecycle constants\<close>

text \<open>
  Claim C2, as amended. For every mass in the range 0.5 to 15 the two places of the
  application that compute the lifecycle constants, \<open>useStarPhysics\<close> and
  \<open>getSystemPhysics\<close>, compute the lifespan \<open>10 / mass^2.5 + 0.5\<close>, which is positive, and
  the end of the red-giant phase as 1.2 times the lifespan, which is above the lifespan.
  The stand-alone hook computes another lifespan, \<open>10 / mass^2\<close>, also positive, and no
  end of the red-giant phase.
\<close>

theorem lifecycle_constants:
  assumes "0.5 \<le> m" and "m \<le> 15"
  shows "star_lifespan (Fin m) = Fin (10 / m powr 2.5 + 0.5) \<and>
         star_redGiantStart (Fin m) = Fin (10 / m powr 2.5 + 0.5) \<and>
         star_deathStart (Fin m) = Fin (1.2 * (10 / m powr 2.5 + 0.5)) \<and>
         lifespan (getSystemPhysics (Fin m) age) = Fin (10 / m powr 2.5 + 0.5) \<and>
         redGiantEnd (getSystemPhysics (Fin m) age) = Fin (1.2 * (10 / m powr 2.5 + 0.5)) \<and>
         0 < 10 / m powr 2.5 + 0.5 \<and>
         10 / m powr 2.5 + 0.5 < 1.2 * (10 / m powr 2.5 + 0.5) \<and>
         hook_lifespan (Fin m) = Fin (10 / (m * m)) \<and>
         0 < 10 / (m * m)"
proof -
  have m: "0 < m" using assms(1) by simp
  have pos: "1 / 2 < spec_lifespan m"
    using spec_lifespan_gt [OF m] .
  have app: "star_lifespan (Fin m) = Fin (spec_lifespan m) \<and>
             star_redGiantStart (Fin m) = Fin (spec_lifespan m) \<and>
             star_deathStart (Fin m) = Fin (spec_redGiantEnd m)"
    by (simp add: star_redGiantStart_def star_lifespan_Fin [OF m] star_deathStart_Fin [OF m])
  have hook: "hook_lifespan (Fin m) = Fin (10 / (m * m)) \<and> 0 < 10 / (m * m)"
    using m by (simp add: hook_lifespan_def)
  show ?thesis
    using app getSystemPhysics_Fin [OF m, of age] hook pos spec_redGiantEnd_gt [OF m]
    by (simp add: spec_lifespan_def spec_redGiantEnd_def)
qed

text \<open>The theorem at mass 1.\<close>

theorem lifecycle_constants_witness:
  "(0.5::real) \<le> 1 \<and> (1::real) \<le> 15 \<and>
   star_lifespan (Fin 1) = Fin 10.5 \<and> star_deathStart (Fin 1) = Fin 12.6 \<and>
   lifespan (getSystemPhysics (Fin 1) (Fin 0)) = Fin 10.5 \<and>
   redGiantEnd (getSystemPhysics (Fin 1) (Fin 0)) = Fin 12.6 \<and>
   hook_lifespan (Fin 1) = Fin 10"
  using lifecycle_constants [of 1 "Fin 0"] by simp

text \<open>
  Claim C2 as stated fails for the stand-alone hook: at mass 1, inside the range, its
  lifespan is 10 and not \<open>10 / 1^2.5 + 0.5 = 10.5\<close>.
\<close>

theorem hook_lifespan_counterexample:
  "(0.5::real) \<le> 1 \<and> (1::real) \<le> 15 \<and> hook_lifespan (Fin 1) \<noteq> Fin (10 / 1 powr 2.5 + 0.5)"
  by (simp add: hook_lifespan_def)

section \<open>The mass multiplier\<close>

text \<open>
  Claim C3. For every mass above zero and every age the mass multiplier of the
  system-scaling computation is 1.0 while the age is at most the lifespan,
  \<open>1 - 0.6 * phaseProgress\<close> while the age is strictly between the lifespan and the end of
  the red-giant phase, and 0.4 from the end of the red-giant phase on; the current mass
  returned is the mass times this multiplier. The multiplier is 1.0 at an age equal to the
  lifespan and 0.4 at an age equal to the end of the red-giant phase, and as a function of
  the age it is continuous everywhere.
\<close>

theorem mass_multiplier:
  assumes "0 < m"
  shows "(a \<le> spec_lifespan m \<longrightarrow> massMultiplier (Fin m) (Fin a) = Fin 1.0) \<and>
    (spec_lifespan m < a \<and> a < spec_redGiantEnd m \<longrightarrow>
       massMultiplier (Fin m) (Fin a) = Fin (1 - 0.6 * spec_phaseProgress m a)) \<and>
    (spec_redGiantEnd m \<le> a \<longrightarrow> massMultiplier (Fin m) (Fin a) = Fin 0.4) \<and>
    massMultiplier (Fin m) (Fin (spec_lifespan m)) = Fin 1.0 \<and>
    massMultiplier (Fin m) (Fin (spec_redGiantEnd m)) = Fin 0.4 \<and>
    currentMass (getSystemPhysics (Fin m) (Fin a)) = js_mul (Fin m) (massMultiplier (Fin m) (Fin a)) \<and>
    (\<forall>x. massMultiplier (Fin m) (Fin x) = Fin (spec_massMultiplier m x)) \<and>
    continuous_on UNIV (spec_massMultiplier m)"
proof -
  have lt: "spec_lifespan m < spec_redGiantEnd m"
    using spec_redGiantEnd_gt [OF assms] .
  have cases: "(a \<le> spec_lifespan m \<longrightarrow> massMultiplier (Fin m) (Fin a) = Fin 1.0) \<and>
    (spec_lifespan m < a \<and> a < spec_redGiantEnd m \<longrightarrow>
       massMultiplier (Fin m) (Fin a) = Fin (1 - 0.6 * spec_phaseProgress m a)) \<and>
    (spec_redGiantEnd m \<le> a \<longrightarrow> massMultiplier (Fin m) (Fin a) = Fin 0.4)"
    using lt by (simp add: massMultiplier_Fin [OF assms] spec_massMultiplier_def)
  have left: "massMultiplier (Fin m) (Fin (spec_lifespan m)) = Fin 1.0"
    by (simp add: massMultiplier_Fin [OF assms] spec_massMultiplier_def)
  have right: "massMultiplier (Fin m) (Fin (spec_redGiantEnd m)) = Fin 0.4"
    using lt by (simp add: massMultiplier_Fin [OF assms] spec_massMultiplier_def)
  have cur: "currentMass (getSystemPhysics (Fin m) (Fin a)) =
             js_mul (Fin m) (massMultiplier (Fin m) (Fin a))"
    using getSystemPhysics_Fin [OF assms] by simp
  have agree: "\<forall>x. massMultiplier (Fin m) (Fin x) = Fin (spec_massMultiplier m x)"
    by (simp add: massMultiplier_Fin [OF assms])
  show ?thesis
    using cases left right cur agree spec_massMultiplier_continuous [OF assms] by blast
qed

text \<open>
  The theorem at mass 1: on the two boundaries, in the middle of the red-giant phase and
  after it.
\<close>

theorem mass_multiplier_witness:
  "(0::real) < 1 \<and>
   massMultiplier (Fin 1) (Fin 10.5) = Fin 1 \<and>
   massMultiplier (Fin 1) (Fin 11.55) = Fin 0.7 \<and>
   massMultiplier (Fin 1) (Fin 12.6) = Fin 0.4 \<and>
   massMultiplier (Fin 1) (Fin 15) = Fin 0.4"
  using mass_multiplier [of 1 "10.5"] mass_multiplier [of 1 "11.55"]
    mass_multiplier [of 1 "12.6"] mass_multiplier [of 1 15]
  by (simp add: spec_lifespan_one spec_redGiantEnd_one spec_phaseProgress_def
      spec_massMultiplier_def)

section \<open>The floor of the current mass\<close>

text \<open>
  Claim C8. For every mass above zero and every age, special values included, the mass
  multiplier is a finite number that is at least 0.4, so the current mass is at least 0.4
  times the mass, which is positive. Hence the divisors of the orbital computation are not
  zero: the quotient of the mass by the current mass is the finite real quotient, the
  initial system scale is the positive square root of the mass, and the speed of a body of
  finite base speed is finite.
\<close>

theorem current_mass_floor:
  assumes "0 < m"
  shows "\<exists>c k. massMultiplier (Fin m) age = Fin k \<and> 0.4 \<le> k \<and>
           currentMass (getSystemPhysics (Fin m) age) = Fin c \<and> c = m * k \<and>
           0.4 * m \<le> c \<and> 0 < 0.4 * m \<and> c \<noteq> 0 \<and>
           js_div (Fin m) (currentMass (getSystemPhysics (Fin m) age)) = Fin (m / c) \<and>
           Math_pow (Fin m) 0.5 = Fin (sqrt m) \<and> sqrt m \<noteq> 0 \<and>
           js_div (js_mul (Fin v) (Math_sqrt (currentMass (getSystemPhysics (Fin m) age))))
                  (Math_pow (Fin m) 0.5) = Fin (v * sqrt c / sqrt m)"
proof -
  obtain k where k: "massMultiplier (Fin m) age = Fin k" "0.4 \<le> k"
    using massMultiplier_bounds_any [OF assms, of age] by blast
  define c where "c = m * k"
  have c: "currentMass (getSystemPhysics (Fin m) age) = Fin c" "0.4 * m \<le> c"
    using getSystemPhysics_Fin [OF assms, of age] k assms by (simp_all add: c_def)
  have pos: "0 < c" using assms c(2) by simp
  have root: "Math_pow (Fin m) 0.5 = Fin (sqrt m)"
    using Math_pow_pos [OF assms] by simp
  have "js_div (Fin m) (Fin c) = Fin (m / c)"
    using pos by simp
  moreover have "js_div (js_mul (Fin v) (Math_sqrt (Fin c))) (Fin (sqrt m)) = Fin (v * sqrt c / sqrt m)"
    using pos assms by simp
  ultimately show ?thesis
    using c pos assms root k by (intro exI [of _ c] exI [of _ k]) (simp add: c_def)
qed

text \<open>The theorem at mass 1 and age 15, where the current mass is 0.4.\<close>

theorem current_mass_floor_witness:
  "(0::real) < 1 \<and>
   (\<exists>c. currentMass (getSystemPhysics (Fin 1) (Fin 15)) = Fin c \<and> 0.4 * 1 \<le> c \<and> c \<noteq> 0)"
  using current_mass_floor [of 1 "Fin 15" 1] by auto

section \<open>The playback clock\<close>

lemma interval_tick_range:
  assumes "s_age s = Fin a" "0 \<le> a" "a \<le> 15"
  shows "\<exists>b. s_age (interval_tick s) = Fin b \<and> 0 \<le> b \<and> b \<le> 15"
  using assms
  by (auto simp add: interval_tick_def age_updater_def js_ge_def js_le_def)

lemma interval_ticks_range:
  assumes "s_age s = Fin a" "0 \<le> a" "a \<le> 15"
  shows "\<exists>b. s_age ((interval_tick ^^ n) s) = Fin b \<and> 0 \<le> b \<and> b \<le> 15"
proof (induction n)
  case 0
  then show ?case using assms by simp
next
  case (Suc n)
  then obtain b where "s_age ((interval_tick ^^ n) s) = Fin b" "0 \<le> b" "b \<le> 15"
    by blast
  then show ?case
    using interval_tick_range [of "(interval_tick ^^ n) s" b] by simp
qed

lemma interval_tick_clamp:
  assumes "s_isPlaying s" "s_age s = Fin a" "14.9 \<le> a" "a < 15"
  shows "s_age (interval_tick s) = Fin 15 \<and> \<not> s_isPlaying (interval_tick s)"
  using assms by (simp add: interval_tick_def age_updater_def js_ge_def js_le_def)

lemma interval_tick_advance:
  assumes "s_isPlaying s" "s_age s = Fin a" "a < 14.9"
  shows "s_age (interval_tick s) = Fin (a + 0.05) \<and> s_isPlaying (interval_tick s)"
  using assms by (simp add: interval_tick_def age_updater_def js_ge_def js_le_def)

lemma playback_stops_within:
  assumes "s_isPlaying s" "s_age s = Fin a" "a < 15" "14.9 - a \<le> real k * 0.05"
  shows "\<exists>n. s_age ((interval_tick ^^ n) s) = Fin 15 \<and> \<not> s_isPlaying ((interval_tick ^^ n) s)"
  using assms
proof (induction k arbitrary: s a)
  case 0
  then have "14.9 \<le> a" by simp
  then have "s_age ((interval_tick ^^ 1) s) = Fin 15 \<and> \<not> s_isPlaying ((interval_tick ^^ 1) s)"
    using interval_tick_clamp [of s a] "0.prems" by simp
  then show ?case by blast
next
  case (Suc k)
  show ?case
  proof (cases "14.9 \<le> a")
    case True
    then have "s_age ((interval_tick ^^ 1) s) = Fin 15 \<and> \<not> s_isPlaying ((interval_tick ^^ 1) s)"
      using interval_tick_clamp [of s a] Suc.prems by simp
    then show ?thesis by blast
  next
    case False
    then have adv: "s_age (interval_tick s) = Fin (a + 0.05)" "s_isPlaying (interval_tick s)"
      using interval_tick_advance [of s a] Suc.prems by simp_all
    have "a + 0.05 < 15" using False by simp
    moreover have "14.9 - (a + 0.05) \<le> real k * 0.05"
      using Suc.prems(4) by (simp add: algebra_simps)
    ultimately obtain n where
      "s_age ((interval_tick ^^ n) (interval_tick s)) = Fin 15 \<and>
       \<not> s_isPlaying ((interval_tick ^^ n) (interval_tick s))"
      using Suc.IH [of "interval_tick s" "a + 0.05"] adv by blast
    then have "s_age ((interval_tick ^^ Suc n) s) = Fin 15 \<and>
               \<not> s_isPlaying ((interval_tick ^^ Suc n) s)"
      by (simp add: funpow_swap1)
    then show ?thesis by blast
  qed
qed

lemma playback_stops:
  assumes "s_isPlaying s" "s_age s = Fin a" "a < 15"
  shows "\<exists>n. s_age ((interval_tick ^^ n) s) = Fin 15 \<and> \<not> s_isPlaying ((interval_tick ^^ n) s)"
proof -
  obtain k :: nat where "(14.9 - a) * 20 \<le> real k"
    using real_arch_simple by blast
  then have "14.9 - a \<le> real k * 0.05"
    by simp
  then show ?thesis
    using playback_stops_within [OF assms] by blast
qed

lemma interval_tick_rest:
  assumes "s_age s = Fin 15"
  shows "(interval_tick ^^ n) s = s"
proof (induction n)
  case 0
  then show ?case by simp
next
  case (Suc n)
  have "interval_tick s = s"
    using assms by (simp add: interval_tick_def)
  then show ?case using Suc by (simp add: funpow_swap1)
qed

text \<open>
  Claim C10 as stated fails at age 14.9. With the playback active, a firing of the interval
  at age 14.9, below the clamp value 15, sets the age to 15 and not to 14.95: the step is
  0.1. And when the age has reached 15 by the slider while the playback is active, a
  firing leaves the playing flag set.
\<close>

theorem playback_tick_counterexample:
  "s_isPlaying (setAge (Fin 14.9) (toggleTime (init (\<lambda>i. Fin 0)))) \<and>
   s_age (setAge (Fin 14.9) (toggleTime (init (\<lambda>i. Fin 0)))) = Fin 14.9 \<and>
   s_age (interval_tick (setAge (Fin 14.9) (toggleTime (init (\<lambda>i. Fin 0))))) = Fin 15 \<and>
   s_age (interval_tick (setAge (Fin 14.9) (toggleTime (init (\<lambda>i. Fin 0))))) \<noteq> Fin (14.9 + 0.05) \<and>
   s_age (setAge (Fin 15) (toggleTime (init (\<lambda>i. Fin 0)))) = Fin 15 \<and>
   s_isPlaying (interval_tick (setAge (Fin 15) (toggleTime (init (\<lambda>i. Fin 0)))))"
  by (simp add: interval_tick_def age_updater_def setAge_def toggleTime_def init_def js_ge_def
      js_le_def)

text \<open>
  Claim C10, as amended. While the playback is active and the age is in the range 0 to 15,
  a firing of the 50 ms interval adds exactly 0.05 to the age and leaves the playback
  running while the age is below 14.9; from age 14.9 on, below 15, the firing sets the age
  to 15 and clears the playing flag. At age 15 no interval is installed: firings change
  nothing, and a playing flag that is set there stays set. A firing that brings the age
  to 15 clears the playing flag, and from every age below 15 finitely many firings bring
  the age to 15 and stop the playback. The age after one firing, and after any number of
  firings, is again in the range 0 to 15.
\<close>

theorem playback_tick:
  assumes "s_isPlaying s" and "s_age s = Fin a" and "0 \<le> a" and "a \<le> 15"
  shows "(a < 14.9 \<longrightarrow>
            s_age (interval_tick s) = Fin (a + 0.05) \<and> s_isPlaying (interval_tick s)) \<and>
         (14.9 \<le> a \<and> a < 15 \<longrightarrow>
            s_age (interval_tick s) = Fin 15 \<and> \<not> s_isPlaying (interval_tick s)) \<and>
         (a = 15 \<longrightarrow> interval_tick s = s) \<and>
         (a = 15 \<longrightarrow> (\<forall>n. (interval_tick ^^ n) s = s)) \<and>
         (a < 15 \<and> s_age (interval_tick s) = Fin 15 \<longrightarrow> \<not> s_isPlaying (interval_tick s)) \<and>
         (a < 15 \<longrightarrow>
            (\<exists>n. s_age ((interval_tick ^^ n) s) = Fin 15 \<and>
                 \<not> s_isPlaying ((interval_tick ^^ n) s))) \<and>
         (\<exists>b. s_age (interval_tick s) = Fin b \<and> 0 \<le> b \<and> b \<le> 15) \<and>
         (\<forall>n. \<exists>b. s_age ((interval_tick ^^ n) s) = Fin b \<and> 0 \<le> b \<and> b \<le> 15)"
proof -
  have advance: "a < 14.9 \<longrightarrow>
      s_age (interval_tick s) = Fin (a + 0.05) \<and> s_isPlaying (interval_tick s)"
    using interval_tick_advance [OF assms(1,2)] by simp
  have clamp: "14.9 \<le> a \<and> a < 15 \<longrightarrow>
      s_age (interval_tick s) = Fin 15 \<and> \<not> s_isPlaying (interval_tick s)"
    using interval_tick_clamp [OF assms(1,2)] by simp
  have rest: "a = 15 \<longrightarrow> interval_tick s = s"
    using assms(2) by (simp add: interval_tick_def)
  have rests: "a = 15 \<longrightarrow> (\<forall>n. (interval_tick ^^ n) s = s)"
    using assms(2) interval_tick_rest [of s] by simp
  have stop: "a < 15 \<and> s_age (interval_tick s) = Fin 15 \<longrightarrow> \<not> s_isPlaying (interval_tick s)"
    using assms(1,2)
    by (auto simp add: interval_tick_def age_updater_def js_ge_def js_le_def)
  have stops: "a < 15 \<longrightarrow>
      (\<exists>n. s_age ((interval_tick ^^ n) s) = Fin 15 \<and> \<not> s_isPlaying ((interval_tick ^^ n) s))"
    using playback_stops [OF assms(1,2)] by simp
  show ?thesis
    using advance clamp rest rests stop stops interval_tick_range [OF assms(2-4)]
      interval_ticks_range [OF assms(2-4)]
    by blast
qed

text \<open>
  The theorem on the state after pressing play at age 0, and after moving the age slider
  to 14.9 and to 15 while playing.
\<close>

theorem playback_tick_witness:
  "s_isPlaying (toggleTime (init (\<lambda>i. Fin 0))) \<and>
   s_age (toggleTime (init (\<lambda>i. Fin 0))) = Fin 0 \<and>
   s_age (interval_tick (toggleTime (init (\<lambda>i. Fin 0)))) = Fin 0.05 \<and>
   s_age (interval_tick (setAge (Fin 14.9) (toggleTime (init (\<lambda>i. Fin 0))))) = Fin 15 \<and>
   \<not> s_isPlaying (interval_tick (setAge (Fin 14.9) (toggleTime (init (\<lambda>i. Fin 0))))) \<and>
   interval_tick (setAge (Fin 15) (toggleTime (init (\<lambda>i. Fin 0)))) =
     setAge (Fin 15) (toggleTime (init (\<lambda>i. Fin 0)))"
  using playback_tick [of "toggleTime (init (\<lambda>i. Fin 0))" 0]
    playback_tick [of "setAge (Fin 14.9) (toggleTime (init (\<lambda>i. Fin 0)))" "14.9"]
    playback_tick [of "setAge (Fin 15) (toggleTime (init (\<lambda>i. Fin 0)))" 15]
  by (simp add: toggleTime_def init_def setAge_def)

section \<open>Triggering the explosion twice\<close>

text \<open>
  Claim C6 as stated fails: a second trigger installs a second revert timer. After a
  trigger at time 0 and one at 500 ms two timers are pending, with deadlines 2000 and
  2500. The system returns to normal at 2000; an explosion triggered at 2100 is then ended
  by the second timer at 2500, after 400 ms.
\<close>

theorem retrigger_counterexample:
  "s_timers (run [TriggerDeath, Elapse 500, TriggerDeath] (init (\<lambda>i. Fin 0))) = [2000, 2500] \<and>
   s_exploded (run [TriggerDeath, Elapse 500, TriggerDeath, Elapse 1500, Elapse 100, TriggerDeath]
                 (init (\<lambda>i. Fin 0))) \<and>
   \<not> s_exploded (run [TriggerDeath, Elapse 500, TriggerDeath, Elapse 1500, Elapse 100, TriggerDeath,
                       Elapse 400] (init (\<lambda>i. Fin 0)))"
  by (simp add: init_def triggerDeath_def elapse_def Let_def)

text \<open>
  Claim C6, as amended. A trigger sets the explosion flag, leaves every pending revert
  deadline as it is and adds one more, 2 seconds after the trigger; a trigger during an
  explosion is therefore no no-op on the timers. With no timer pending before the first
  trigger and a second trigger \<open>d\<close> milliseconds after the first, \<open>d < 2000\<close>, both
  deadlines are pending, the explosion stays active until 2 seconds after the first
  trigger and ends exactly then, and the timer of the second trigger is still pending
  (unless both triggers came at the same time).
\<close>

theorem retrigger:
  assumes "s_timers s = []" and "d < 2000"
  shows "s_timers (triggerDeath s1) = s_timers s1 @ [s_clock s1 + 2000] \<and>
         s_exploded (triggerDeath s1) \<and>
         s_timers (triggerDeath (elapse d (triggerDeath s))) =
           [s_clock s + 2000, s_clock s + d + 2000] \<and>
         (\<forall>t. d + t < 2000 \<longrightarrow> s_exploded (elapse t (triggerDeath (elapse d (triggerDeath s))))) \<and>
         \<not> s_exploded (elapse (2000 - d) (triggerDeath (elapse d (triggerDeath s)))) \<and>
         s_clock (elapse (2000 - d) (triggerDeath (elapse d (triggerDeath s)))) = s_clock s + 2000 \<and>
         s_timers (elapse (2000 - d) (triggerDeath (elapse d (triggerDeath s)))) =
           (if d = 0 then [] else [s_clock s + d + 2000])"
  using assms
  by (auto simp add: triggerDeath_def elapse_def Let_def)

text \<open>The theorem on the freshly mounted application, with 500 ms between the triggers.\<close>

theorem retrigger_witness:
  "s_timers (init (\<lambda>i. Fin 0)) = [] \<and> (500::nat) < 2000 \<and>
   s_timers (triggerDeath (elapse 500 (triggerDeath (init (\<lambda>i. Fin 0))))) = [2000, 2500] \<and>
   s_exploded (elapse 1499 (triggerDeath (elapse 500 (triggerDeath (init (\<lambda>i. Fin 0)))))) \<and>
   \<not> s_exploded (elapse 1500 (triggerDeath (elapse 500 (triggerDeath (init (\<lambda>i. Fin 0))))))"
proof -
  have h: "s_timers (init (\<lambda>i. Fin 0)) = []" "s_clock (init (\<lambda>i. Fin 0)) = 0"
    by (simp_all add: init_def)
  show ?thesis
    using retrigger [of "init (\<lambda>i. Fin 0)" 500 "init (\<lambda>i. Fin 0)"] h
    by simp
qed

section \<open>What is drawn during the explosion\<close>

text \<open>
  Claim C7 as stated fails for the planets: during the explosion a planet that is not dead
  is still drawn with the radius of the catalogue, 0.15 for Mercury, in the dark colour
  \<open>#111\<close>.
\<close>

theorem exploded_planet_counterexample:
  "map_option v_radius (SinglePlanet_render (planets ! 0) True (new_planet (Fin 0))) = Some (Fin 0.15) \<and>
   map_option v_color (SinglePlanet_render (planets ! 0) True (new_planet (Fin 0))) = Some ''#111''"
  by (simp add: SinglePlanet_render_def planets_def planet_def new_planet_def)

text \<open>
  Claim C7, as amended. While the explosion is active every particle of the inner belt and
  of the outer belt is drawn at scale zero. A planet is not drawn at size zero: a dead
  planet is not drawn at all, and a planet that is not dead is drawn with its radius
  unchanged, in the colour \<open>#111\<close> and without orbit ring, moon, rings and label; its frame
  callback returns at once, so its state stays as it is.
\<close>

theorem explosion_view:
  "(\<forall>r \<in> set (AsteroidBelt_useFrame mass age True starScale delta asteroids). i_scale (snd r) = Fin 0) \<and>
   (\<forall>r \<in> set (KuiperBelt_useFrame mass age True starScale delta asteroids). i_scale (snd r) = Fin 0) \<and>
   SinglePlanet_render data True st =
     (if isDead st then None
      else Some \<lparr>v_radius = pd_size data, v_color = ''#111'', v_orbitRing = False,
                 v_moon = False, v_rings = False, v_label = False\<rparr>) \<and>
   SinglePlanet_useFrame data starScale True starMass starAge delta st = (st, False)"
  by (simp add: AsteroidBelt_useFrame_def KuiperBelt_useFrame_def AsteroidBelt_particle_def
      KuiperBelt_particle_def SinglePlanet_render_def SinglePlanet_useFrame_def Let_def)

text \<open>The theorem on two belts of one particle each.\<close>

theorem explosion_view_witness:
  "i_scale (snd (AsteroidBelt_particle (Fin 1) (Fin 0) True (Fin 1) (Fin 0)
      \<lparr>p_angle = Fin 0, p_dist = Fin 10.5, p_speed = Fin 0.5, p_yOffset = Fin 0, p_size = Fin 0.05\<rparr>))
     = Fin 0 \<and>
   i_scale (snd (KuiperBelt_particle (Fin 1) (Fin 0) True (Fin 1) (Fin 0)
      \<lparr>p_angle = Fin 0, p_dist = Fin 30, p_speed = Fin 0.1, p_yOffset = Fin 0, p_size = Fin 0.08\<rparr>))
     = Fin 0"
  using explosion_view [of "Fin 1" "Fin 0" "Fin 1" "Fin 0"
      "[\<lparr>p_angle = Fin 0, p_dist = Fin 10.5, p_speed = Fin 0.5, p_yOffset = Fin 0, p_size = Fin 0.05\<rparr>,
        \<lparr>p_angle = Fin 0, p_dist = Fin 30, p_speed = Fin 0.1, p_yOffset = Fin 0, p_size = Fin 0.08\<rparr>]"]
  by (simp add: AsteroidBelt_useFrame_def KuiperBelt_useFrame_def)

section \<open>Inputs outside the range\<close>

lemma js_lt_NaN_right [simp]: "js_lt x NaN = False"
  by (cases x) simp_all

lemma js_le_NaN [simp]: "js_le NaN x = False" "js_le x NaN = False"
  by (simp_all add: js_le_def)

lemma useStarPhysics_negative:
  assumes "m < 0"
  shows "star_lifespan (Fin m) = NaN \<and>
         stage (useStarPhysics (Fin m) age) = ''White Dwarf'' \<and>
         massMultiplier (Fin m) age = Fin 1"
  using assms
  by (simp add: star_lifespan_def useStarPhysics_def star_redGiantStart_def
      star_deathStart_def massMultiplier_def js_ge_def js_gt_def Let_def)

lemma useStarPhysics_zero:
  shows "star_lifespan (Fin 0) = PInf \<and>
         stage (useStarPhysics (Fin 0) (Fin a)) = ''Main Sequence'' \<and>
         scale (useStarPhysics (Fin 0) (Fin a)) = Fin 0 \<and>
         massMultiplier (Fin 0) (Fin a) = Fin 1"
  by (simp add: star_lifespan_def useStarPhysics_def star_redGiantStart_def
      star_deathStart_def star_baseSize_def massMultiplier_def js_ge_def js_gt_def js_le_def
      inf_of_sign_def Let_def)

lemma useStarPhysics_NaN_age:
  shows "stage (useStarPhysics mass NaN) =
           (if js_gt mass (Fin 8) then ''SUPERNOVA'' else ''White Dwarf'') \<and>
         massMultiplier mass NaN = Fin 1"
  by (simp add: useStarPhysics_def massMultiplier_def js_ge_def js_gt_def Let_def)

text \<open>
  Claim C9 as stated fails: the core neither clamps nor rejects. At mass -1 and age 0 the
  lifespan is \<open>NaN\<close> and the stage is White Dwarf, chosen because every comparison with
  \<open>NaN\<close> is false; with the values clamped to the ranges of the presentation layer
  (mass 0.5, age 0) the stage is Main Sequence.
\<close>

theorem unclamped_counterexample:
  "star_lifespan (Fin (- 1)) = NaN \<and>
   stage (useStarPhysics (Fin (- 1)) (Fin 0)) = ''White Dwarf'' \<and>
   stage (useStarPhysics (Fin (spec_clamp 0.5 15 (- 1))) (Fin (spec_clamp 0 15 0))) =
     ''Main Sequence''"
proof -
  have "(0::real) < spec_lifespan 0.5"
    using spec_lifespan_gt [of "0.5"] by simp
  then have "stage (useStarPhysics (Fin 0.5) (Fin 0)) = ''Main Sequence''"
    using useStarPhysics_main [of "0.5" 0] by simp
  then show ?thesis
    using useStarPhysics_negative [of "- 1" "Fin 0"] by (simp add: spec_clamp_def)
qed

text \<open>
  Claim C9, as amended. The core computes on the values it is given. For a positive finite
  mass the lifespan and the end of the red-giant phase are finite. For a negative mass the
  lifespan is \<open>NaN\<close>, every comparison of the stage selection is false and the last branch
  is taken: the stage is White Dwarf at every age. For mass zero the lifespan is
  \<open>Infinity\<close> and the stage is Main Sequence, with scale zero, at every finite age. For an
  age that is \<open>NaN\<close> the last branch is taken at every mass: the supernova stage for a mass
  above 8 and White Dwarf otherwise. In all three cases the mass multiplier is 1.
\<close>

theorem unclamped_inputs:
  "(0 < m \<longrightarrow> star_lifespan (Fin m) = Fin (spec_lifespan m) \<and>
              star_deathStart (Fin m) = Fin (spec_redGiantEnd m)) \<and>
   (m < 0 \<longrightarrow> star_lifespan (Fin m) = NaN \<and>
              stage (useStarPhysics (Fin m) age) = ''White Dwarf'' \<and>
              massMultiplier (Fin m) age = Fin 1) \<and>
   star_lifespan (Fin 0) = PInf \<and>
   stage (useStarPhysics (Fin 0) (Fin a)) = ''Main Sequence'' \<and>
   scale (useStarPhysics (Fin 0) (Fin a)) = Fin 0 \<and>
   massMultiplier (Fin 0) (Fin a) = Fin 1 \<and>
   stage (useStarPhysics mass NaN) =
     (if js_gt mass (Fin 8) then ''SUPERNOVA'' else ''White Dwarf'') \<and>
   massMultiplier mass NaN = Fin 1"
  using useStarPhysics_negative [of m age] useStarPhysics_zero [of a]
    useStarPhysics_NaN_age [of mass] star_lifespan_Fin [of m] star_deathStart_Fin [of m]
  by simp

text \<open>The theorem at mass 1, at mass -2 with age 3, and at mass 9 with the age \<open>NaN\<close>.\<close>

theorem unclamped_inputs_witness:
  "(0::real) < 1 \<and> (- 2::real) < 0 \<and>
   star_lifespan (Fin 1) = Fin 10.5 \<and>
   star_lifespan (Fin (- 2)) = NaN \<and>
   stage (useStarPhysics (Fin (- 2)) (Fin 3)) = ''White Dwarf'' \<and>
   stage (useStarPhysics (Fin 9) NaN) = ''SUPERNOVA''"
  using unclamped_inputs [of 1 "Fin 3" 0 "Fin 9"] unclamped_inputs [of "- 2" "Fin 3" 0 "Fin 9"]
  by (simp add: spec_lifespan_one js_gt_def)

section \<open>Engulfment\<close>



lemma engulfed_at_lifespan:
  assumes "0 < m"
  shows "\<not> engulfed data starScale (Fin m) (Fin (spec_lifespan m)) a"
  using getSystemPhysics_Fin [OF assms, of "Fin (spec_lifespan m)"]
  by (simp add: engulfed_def Let_def js_gt_def)





subsection \<open>A bound on the logarithm\<close>










subsection \<open>The distance of a planet from the centre\<close>

lemma js_mul_NaN_right [simp]: "js_mul x NaN = NaN"
  by (cases x) simp_all

lemma js_div_NaN_right [simp]: "js_div x NaN = NaN"
  by (cases x) simp_all

lemma js_add_NaN_right [simp]: "js_add x NaN = NaN"
  by (cases x) simp_all

lemma js_gt_NaN [simp]: "js_gt x NaN = False" "js_gt NaN x = False"
  by (simp_all add: js_gt_def)









subsection \<open>The star never reaches a body\<close>





lemma js_lt_PInf_left [simp]: "js_lt PInf y = False"
  by (cases y) simp_all

lemma js_lt_NInf_right [simp]: "js_lt x NInf = False"
  by (cases x) simp_all
















section \<open>Inertness is kept\<close>

lemma length_mount_planets: "length (mount_planets rnd) = length planets"
  by (simp add: mount_planets_def)















end
